theory Spec2Isabelle
  imports Main "HOL-Library.Word" "HOL-Library.Char_ord" "HOL-Library.List_Lexorder"
    "HOL-Library.Multiset"
begin

unbundle bit_operations_syntax

section \<open>Controller: request/response correlation (controller/controller.go)\<close>

subsection \<open>Packets, requests and reply channels\<close>

text \<open>
  Modelled from the spec: the packet package's \<open>Packet\<close> struct is not among the sources.
  The spec gives it as an envelope of a one-byte type tag, a correlation id and a
  payload, the id being write-once: assigned once, at the first transmission of a
  request. \<open>HasIV\<close> says whether the id has been assigned (\<open>p.IV\<close> is set); \<open>ReqId\<close> is
  \<open>p.IV.ReqId\<close> and means something only then. The controller reads and writes only
  \<open>Type\<close> and \<open>IV.ReqId\<close>; the packets it reads from \<open>fromDC\<close> carry the id their sender
  gave them.
\<close>

record Packet =
  Type :: "8 word"
  HasIV :: bool
  ReqId :: "32 word"
  Payload :: "8 word list"

text \<open>
  A reply channel is an unbuffered Go channel (\<open>make(chan *packet.Packet)\<close>). A send in a
  \<open>select\<close> with a \<open>default\<close> branch succeeds exactly when a receiver is blocked on the
  channel at that moment; otherwise the \<open>default\<close> branch runs and the value is dropped.
  \<open>waiting\<close> says whether the caller of \<open>send\<close> is blocked in its receive, \<open>received\<close>
  lists what it has been handed.
\<close>

record chan =
  waiting :: bool
  received :: "Packet list"

definition try_send :: "chan \<Rightarrow> Packet \<Rightarrow> chan" where
  "try_send ch p =
     (if waiting ch then ch\<lparr>waiting := False, received := received ch @ [p]\<rparr> else ch)"

text \<open>
  \<open>type Request struct { Packet *packet.Packet; Reply chan *packet.Packet }\<close>. The reply
  channel is shared between the waiting caller and the staging table, so a request holds
  the channel's address in the store \<open>chans\<close>; \<open>None\<close> is the nil channel of \<open>Send\<close>.
\<close>

record Request =
  Packet :: Packet
  Reply :: "nat option"

record Controller =
  reqId :: "32 word"
  staging :: "32 word \<rightharpoonup> Request"
  chans :: "nat \<Rightarrow> chan"
  out :: "Packet list"
  toDC :: "Packet list"

subsection \<open>GetReqId\<close>

text \<open>\<open>atomic.AddUint32(&c.reqId, 1)\<close> adds one with 32-bit wrap-around and returns the new value.\<close>

definition GetReqId :: "Controller \<Rightarrow> 32 word \<times> Controller" where
  "GetReqId c = (reqId c + 1, c\<lparr>reqId := reqId c + 1\<rparr>)"

text \<open>Controllers live at addresses of a store; a call works on the instance it is given.\<close>

definition GetReqId_at :: "(nat \<Rightarrow> Controller) \<Rightarrow> nat \<Rightarrow> 32 word \<times> (nat \<Rightarrow> Controller)" where
  "GetReqId_at h a = (case GetReqId (h a) of (v, c') \<Rightarrow> (v, h(a := c')))"

definition NewController :: Controller where
  "NewController = \<lparr>reqId = 0, staging = Map.empty,
     chans = (\<lambda>_. \<lparr>waiting = False, received = []\<rparr>), out = [], toDC = []\<rparr>"

subsection \<open>The read loop and the write loop\<close>

text \<open>
  Modelled from the spec: \<open>Packet.InitIV\<close> is not among the sources. The spec has the
  correlation id write-once: it is assigned once, at the first transmission of a
  request, from the controller the packet is handed (\<open>req.Packet.InitIV(c)\<close>), whose id
  source is \<open>GetReqId\<close>. A packet that already has its id keeps it and the counter is not
  advanced.
\<close>

definition InitIV :: "Packet \<Rightarrow> Controller \<Rightarrow> Packet \<times> Controller" where
  "InitIV p c =
     (if HasIV p then (p, c)
      else (case GetReqId c of (v, c') \<Rightarrow> (p\<lparr>HasIV := True, ReqId := v\<rparr>, c')))"

text \<open>
  The body of \<open>case p := <-c.fromDC\<close> in \<open>readLoop\<close>, run under the staging mutex. The
  method \<open>IsResp\<close> of \<open>packet.Type\<close> is not among the sources and is a parameter. A
  packet that is not a response goes to \<open>c.out\<close>; the model takes the branch of that
  \<open>select\<close> in which the receiver of \<open>c.out\<close> accepts it.
\<close>

definition readLoop_recv :: "(8 word \<Rightarrow> bool) \<Rightarrow> Controller \<Rightarrow> Packet \<Rightarrow> Controller" where
  "readLoop_recv IsResp c p =
     (if IsResp (Type p) then
        (case staging c (ReqId p) of
           Some st \<Rightarrow>
             (case Reply st of
                Some ch \<Rightarrow> c\<lparr>chans := (chans c)(ch := try_send (chans c ch) p)\<rparr>
              | None \<Rightarrow> c)
             \<lparr>staging := (staging c)(ReqId p := None)\<rparr>
         | None \<Rightarrow> c)
      else c\<lparr>out := out c @ [p]\<rparr>)"

text \<open>
  The body of \<open>case req := <-c.in\<close> in \<open>writeLoop\<close>. The method \<open>IsReq\<close> of
  \<open>packet.Type\<close> is not among the sources and is a parameter. \<open>req.Packet\<close> is a
  pointer, so the id that \<open>InitIV\<close> writes is seen both in the staged request and in the
  packet sent on \<open>c.toDC\<close>. That send waits until the packet is taken; \<open>toDC\<close> lists
  the packets sent.
\<close>

definition writeLoop_recv :: "(8 word \<Rightarrow> bool) \<Rightarrow> Controller \<Rightarrow> Request \<Rightarrow> Controller" where
  "writeLoop_recv IsReq c req =
     (case (if IsReq (Type (Packet req))
            then (case InitIV (Packet req) c of
                    (p', c') \<Rightarrow>
                      (req\<lparr>Packet := p'\<rparr>,
                       c'\<lparr>staging := (staging c')(ReqId p' \<mapsto> req\<lparr>Packet := p'\<rparr>)\<rparr>))
            else (req, c)) of
        (req1, c1) \<Rightarrow> c1\<lparr>toDC := toDC c1 @ [Packet req1]\<rparr>)"

section \<open>What the route package calls from outside: Go's net package and the shell\<close>

text \<open>
  \<open>net.IPNet\<close> is \<open>struct { IP IP; Mask IPMask }\<close>, both byte slices.
\<close>

type_synonym byte = "8 word"

record IPNet =
  IP :: "byte list"
  Mask :: "byte list"

datatype oscmd = AddRouteCmd string string | RemoveRouteCmd string

datatype error =
    ErrRouteItemNotFound string
  | ErrRouteItemExists string
  | ErrRouteItemContains string string
  | ErrInvalidCIDR string
  | ErrShell string

text \<open>
  The route package calls three functions it does not define: \<open>net.ParseCIDR\<close> (of which
  it reads the network and the error), \<open>(*net.IPNet).String\<close>, and \<open>util.Shell\<close>, which
  runs the command that \<open>genAddRouteCmd(devName, cidr)\<close> or \<open>genRemoveRouteCmd(cidr)\<close>
  builds (\<^typ>\<open>oscmd\<close> stands for the two command lines) and returns its error. They are
  parameters of the model. The outcome of a shell command may depend on the commands run
  before it, so \<open>util_Shell\<close> is given that history.
\<close>

record extern =
  net_ParseCIDR :: "string \<Rightarrow> IPNet option"
  net_IPNet_String :: "IPNet \<Rightarrow> string"
  util_Shell :: "oscmd list \<Rightarrow> oscmd \<Rightarrow> error option"

subsection \<open>The IPv4 text forms of net.ParseCIDR and IPNet.String\<close>

text \<open>
  For concrete inputs the parameters are instantiated with Go's own functions on IPv4
  text: \<open>dtoi\<close>, \<open>parseIPv4\<close>, \<open>CIDRMask\<close>, \<open>IP.Mask\<close>, \<open>simpleMaskLength\<close>,
  \<open>uitoa\<close>. An address that is not dotted decimal is an error here: IPv6 text is outside
  this instance. A decimal field may start with zeros, as in the Go releases of the
  repository's time; later releases reject that.
\<close>

definition is_digit :: "char \<Rightarrow> bool" where
  "is_digit c = (of_char (CHR ''0'') \<le> (of_char c :: nat) \<and> (of_char c :: nat) \<le> of_char (CHR ''9''))"

definition digit_val :: "char \<Rightarrow> int" where
  "digit_val c = of_char c - of_char (CHR ''0'')"

definition big :: int where
  "big = 0xFFFFFF"

text \<open>\<open>dtoi\<close>: the number and the count of characters consumed; \<open>None\<close> is \<open>ok = false\<close>.\<close>

fun dtoi_loop :: "int \<Rightarrow> nat \<Rightarrow> string \<Rightarrow> (int \<times> nat) option" where
  "dtoi_loop n i [] = Some (n, i)"
| "dtoi_loop n i (c # cs) =
     (if is_digit c
      then (if big \<le> n * 10 + digit_val c then None
            else dtoi_loop (n * 10 + digit_val c) (Suc i) cs)
      else Some (n, i))"

definition dtoi :: "string \<Rightarrow> (int \<times> nat) option" where
  "dtoi s = (case dtoi_loop 0 0 s of
               None \<Rightarrow> None
             | Some (n, i) \<Rightarrow> if i = 0 then None else Some (n, i))"

text \<open>\<open>parseIPv4\<close>: four decimal fields of at most 255, separated by dots, and nothing after.\<close>

fun parseIPv4_loop :: "nat \<Rightarrow> nat \<Rightarrow> string \<Rightarrow> byte list \<Rightarrow> byte list option" where
  "parseIPv4_loop 0 i s p = (if s = [] then Some p else None)"
| "parseIPv4_loop (Suc k) i s p =
     (if s = [] then None
      else if 0 < i \<and> hd s \<noteq> CHR ''.'' then None
      else (let s1 = (if 0 < i then tl s else s) in
            case dtoi s1 of
              None \<Rightarrow> None
            | Some (n, c) \<Rightarrow>
                if 0xFF < n then None
                else parseIPv4_loop k (Suc i) (drop c s1) (p @ [word_of_int n])))"

definition parseIPv4 :: "string \<Rightarrow> byte list option" where
  "parseIPv4 s = parseIPv4_loop 4 0 s []"

fun CIDRMask_loop :: "nat \<Rightarrow> nat \<Rightarrow> byte list" where
  "CIDRMask_loop n 0 = []"
| "CIDRMask_loop n (Suc l) =
     (if 8 \<le> n then 0xff # CIDRMask_loop (n - 8) l
      else NOT (drop_bit n 0xff) # CIDRMask_loop 0 l)"

definition CIDRMask :: "nat \<Rightarrow> nat \<Rightarrow> byte list" where
  "CIDRMask ones bits = CIDRMask_loop ones (bits div 8)"

definition IP_Mask :: "byte list \<Rightarrow> byte list \<Rightarrow> byte list" where
  "IP_Mask ip m = map2 (AND) ip m"

definition ParseCIDR_v4 :: "string \<Rightarrow> IPNet option" where
  "ParseCIDR_v4 s =
     (if CHR ''/'' \<notin> set s then None
      else (let addr = takeWhile (\<lambda>c. c \<noteq> CHR ''/'') s;
                msk = tl (dropWhile (\<lambda>c. c \<noteq> CHR ''/'') s) in
            case parseIPv4 addr of
              None \<Rightarrow> None
            | Some ip \<Rightarrow>
               (case dtoi msk of
                  None \<Rightarrow> None
                | Some (n, i) \<Rightarrow>
                    if i \<noteq> length msk \<or> n < 0 \<or> 32 < n then None
                    else Some \<lparr>IP = IP_Mask ip (CIDRMask (nat n) 32),
                               Mask = CIDRMask (nat n) 32\<rparr>)))"

text \<open>\<open>uitoa\<close>: decimal digits, most significant first; \<open>0\<close> is \<open>''0''\<close>.\<close>

function uitoa_loop :: "nat \<Rightarrow> string \<Rightarrow> string" where
  "uitoa_loop v acc =
     (if 10 \<le> v then uitoa_loop (v div 10) (char_of (48 + v mod 10) # acc)
      else char_of (48 + v) # acc)"
  by pat_completeness auto
termination
  by (relation "measure fst") auto

declare uitoa_loop.simps [simp del]

definition uitoa :: "nat \<Rightarrow> string" where
  "uitoa v = uitoa_loop v []"

text \<open>
  \<open>simpleMaskLength\<close>: the count of leading one bits when the rest is zero, else \<open>-1\<close>
  (\<open>None\<close>). The inner loop shifts a byte left while its top bit is set, so it runs at
  most eight times.
\<close>

fun count_ones :: "nat \<Rightarrow> byte \<Rightarrow> nat \<times> byte" where
  "count_ones 0 v = (0, v)"
| "count_ones (Suc k) v =
     (if v AND 0x80 \<noteq> 0 then (case count_ones k (push_bit 1 v) of (n, v') \<Rightarrow> (Suc n, v'))
      else (0, v))"

fun simpleMaskLength :: "byte list \<Rightarrow> nat option" where
  "simpleMaskLength [] = Some 0"
| "simpleMaskLength (v # rest) =
     (if v = 0xff then map_option (\<lambda>n. n + 8) (simpleMaskLength rest)
      else (case count_ones 8 v of
              (n, v') \<Rightarrow> if v' \<noteq> 0 then None
                         else if list_ex (\<lambda>b. b \<noteq> 0) rest then None
                         else Some n))"

definition hexdigit :: "nat \<Rightarrow> char" where
  "hexdigit d = (if d < 10 then char_of (d + 48) else char_of (d + 87))"

definition hexString :: "byte list \<Rightarrow> string" where
  "hexString bs = concat (map (\<lambda>b. [hexdigit (unat b div 16), hexdigit (unat b mod 16)]) bs)"

text \<open>
  \<open>IP.String\<close> on a four-byte address. Go answers \<open>''?''\<close> and the hex digits for a length that
  is neither 4 nor 16; sixteen-byte addresses do not arise from \<open>ParseCIDR_v4\<close>.
\<close>

fun IP_String_v4 :: "byte list \<Rightarrow> string" where
  "IP_String_v4 [a, b, c, d] =
     uitoa (unat a) @ ''.'' @ uitoa (unat b) @ ''.'' @ uitoa (unat c) @ ''.'' @ uitoa (unat d)"
| "IP_String_v4 ip = ''?'' @ hexString ip"

definition IPNet_String_v4 :: "IPNet \<Rightarrow> string" where
  "IPNet_String_v4 n =
     (if length (IP n) \<noteq> 4 \<or> length (Mask n) \<noteq> 4 then ''<nil>''
      else (case simpleMaskLength (Mask n) of
              None \<Rightarrow> IP_String_v4 (IP n) @ ''/'' @ hexString (Mask n)
            | Some l \<Rightarrow> IP_String_v4 (IP n) @ ''/'' @ uitoa l))"

text \<open>An operating system whose route commands always succeed.\<close>

definition go_v4 :: extern where
  "go_v4 = \<lparr>net_ParseCIDR = ParseCIDR_v4, net_IPNet_String = IPNet_String_v4,
            util_Shell = (\<lambda>_ _. None)\<rparr>"

section \<open>Route: persistent and ephemeral route tables (package route)\<close>

subsection \<open>Items and the two tables\<close>

text \<open>
  \<open>type Item struct { CIDR string; Comment string; IPNet *net.IPNet }\<close>. The model has
  no nil network.
\<close>

record Item =
  CIDR :: string
  Comment :: string
  IPNet :: IPNet

text \<open>
  The byte-wise test of Go's \<open>(*net.IPNet).Contains\<close>: the address and the network
  number agree under the mask.
\<close>

definition IPNet_Contains :: "IPNet \<Rightarrow> byte list \<Rightarrow> bool" where
  "IPNet_Contains n ip =
     (length ip = length (IP n) \<and> length (Mask n) = length ip
      \<and> map2 (AND) (IP n) (Mask n) = map2 (AND) ip (Mask n))"

text \<open>
  Modelled from the spec: \<open>ip.MatchIPNet\<close> is not among the sources. The spec has an entry
  match a queried network when the entry's network contains or intersects it, checked
  symmetrically.
\<close>

definition MatchIPNet :: "IPNet \<Rightarrow> IPNet \<Rightarrow> bool" where
  "MatchIPNet child parent = (IPNet_Contains parent (IP child) \<or> IPNet_Contains child (IP parent))"

text \<open>\<open>func (i Item) Match(target *net.IPNet) bool { return ip.MatchIPNet(target, i.IPNet) }\<close>\<close>

definition Item_Match :: "Item \<Rightarrow> IPNet \<Rightarrow> bool" where
  "Item_Match i target = MatchIPNet target (IPNet i)"

text \<open>
  Modelled from the spec: \<open>Items.Append\<close> of the persistent table is not among the sources.
  The spec: an unconditioned insert.
\<close>

definition Items_Append :: "Item list \<Rightarrow> Item \<Rightarrow> Item list" where
  "Items_Append its i = its @ [i]"

text \<open>
  Modelled from the spec: \<open>Items.Sort\<close> is not among the sources. The spec: it reorders by
  canonical CIDR string ascending. Strings compare byte by byte, as Go's do. Entries with
  equal CIDR strings keep their order here; the spec leaves their order open.
\<close>

definition Items_Sort :: "Item list \<Rightarrow> Item list" where
  "Items_Sort its = sort_key CIDR its"

text \<open>
  Modelled from the spec: \<open>Items.Match\<close> is not among the sources. The spec: it returns the
  first entry in order whose network matches the queried network, or none.
\<close>

definition Items_Match :: "Item list \<Rightarrow> IPNet \<Rightarrow> Item option" where
  "Items_Match its target = find (\<lambda>i. Item_Match i target) its"

text \<open>
  Modelled from the spec: \<open>Items.Remove\<close> is not among the sources. The spec: exact
  canonical-string match and removal, returning the item or none. The result pairs the
  removed item with the table that is left.
\<close>

fun Items_Remove :: "Item list \<Rightarrow> string \<Rightarrow> (Item \<times> Item list) option" where
  "Items_Remove [] cidr = None"
| "Items_Remove (i # its) cidr =
     (if CIDR i = cidr then Some (i, its)
      else (case Items_Remove its cidr of
              None \<Rightarrow> None
            | Some (x, rest) \<Rightarrow> Some (x, i # rest)))"

text \<open>
  Modelled from the spec: the struct \<open>EphemeralItem\<close> is not among the sources. The spec:
  an item plus an absolute expiry timestamp; \<open>Route\<close> reads it as an embedded \<open>*Item\<close>
  (\<open>i.CIDR\<close>, \<open>ei.Item\<close>) and a field \<open>Expired\<close> of type \<open>time.Time\<close>, here an integer.
\<close>

record EphemeralItem =
  Item :: Item
  Expired :: int

text \<open>
  Modelled from the spec: \<open>EphemeralItems.Add\<close> is not among the sources. The spec: an
  ordered insert preserving ascending expiry.
\<close>

definition EphemeralItems_Add :: "EphemeralItem list \<Rightarrow> EphemeralItem \<Rightarrow> EphemeralItem list" where
  "EphemeralItems_Add es e = insort_key Expired e es"

text \<open>
  Modelled from the spec: \<open>EphemeralItems.GetFront\<close> is not among the sources. The spec:
  the earliest-expiring entry, or none.
\<close>

definition EphemeralItems_GetFront :: "EphemeralItem list \<Rightarrow> EphemeralItem option" where
  "EphemeralItems_GetFront es = (case es of [] \<Rightarrow> None | e # _ \<Rightarrow> Some e)"

text \<open>
  Modelled from the spec: \<open>EphemeralItems.Remove\<close> is not among the sources. The spec: exact
  match by linear scan, returning the entry or none.
\<close>

fun EphemeralItems_Remove ::
  "EphemeralItem list \<Rightarrow> string \<Rightarrow> (EphemeralItem \<times> EphemeralItem list) option" where
  "EphemeralItems_Remove [] cidr = None"
| "EphemeralItems_Remove (e # es) cidr =
     (if CIDR (Item e) = cidr then Some (e, es)
      else (case EphemeralItems_Remove es cidr of
              None \<Rightarrow> None
            | Some (x, rest) \<Rightarrow> Some (x, e # rest)))"

text \<open>
  Modelled from the spec: \<open>EphemeralItems.Match\<close> is not among the sources. The spec: the
  containment semantics of the persistent table, scanning all entries held, whatever
  their expiry.
\<close>

definition EphemeralItems_Match :: "EphemeralItem list \<Rightarrow> IPNet \<Rightarrow> EphemeralItem option" where
  "EphemeralItems_Match es target = find (\<lambda>e. Item_Match (Item e) target) es"

subsection \<open>Route\<close>

text \<open>
  \<open>newEphemeralItem\<close> is a channel of capacity one that carries no data: the field says
  whether a wake-up is pending in it. \<open>os_log\<close> records the commands handed to
  \<open>util.Shell\<close>, oldest first. \<open>logex.Trace\<close>, which annotates an error that is not nil
  and leaves nil as it is, is not modelled.
\<close>

record Route =
  items :: "Item list"
  ephemeralItems :: "EphemeralItem list"
  devName :: string
  newEphemeralItem :: bool
  os_log :: "oscmd list"

definition NewRoute :: "string \<Rightarrow> Route" where
  "NewRoute dev = \<lparr>items = [], ephemeralItems = [], devName = dev,
                   newEphemeralItem = False, os_log = []\<rparr>"

definition NewItem :: "extern \<Rightarrow> IPNet \<Rightarrow> string \<Rightarrow> Item" where
  "NewItem E ipnet comment = \<lparr>CIDR = net_IPNet_String E ipnet, Comment = comment, IPNet = ipnet\<rparr>"

definition FormatCIDR :: "extern \<Rightarrow> string \<Rightarrow> string" where
  "FormatCIDR E cidr =
     (let cidr1 = (if CHR ''/'' \<notin> set cidr then cidr @ ''/32'' else cidr) in
      case net_ParseCIDR E cidr1 of
        Some ipnet \<Rightarrow> net_IPNet_String E ipnet
      | None \<Rightarrow> cidr1)"

definition NewItemCIDR :: "extern \<Rightarrow> string \<Rightarrow> string \<Rightarrow> error + Item" where
  "NewItemCIDR E cidr comment =
     (case net_ParseCIDR E (FormatCIDR E cidr) of
        None \<Rightarrow> Inl (ErrInvalidCIDR (FormatCIDR E cidr))
      | Some ipnet \<Rightarrow> Inr (NewItem E ipnet comment))"

definition checkValidCIDR :: "extern \<Rightarrow> string \<Rightarrow> error option" where
  "checkValidCIDR E cidr =
     (case net_ParseCIDR E cidr of None \<Rightarrow> Some (ErrInvalidCIDR cidr) | Some _ \<Rightarrow> None)"

definition DeleteRoute :: "extern \<Rightarrow> Route \<Rightarrow> string \<Rightarrow> error option \<times> Route" where
  "DeleteRoute E r cidr =
     (util_Shell E (os_log r) (RemoveRouteCmd cidr),
      r\<lparr>os_log := os_log r @ [RemoveRouteCmd cidr]\<rparr>)"

definition SetRoute :: "extern \<Rightarrow> Route \<Rightarrow> string \<Rightarrow> error option \<times> Route" where
  "SetRoute E r cidr =
     (util_Shell E (os_log r) (AddRouteCmd (devName r) cidr),
      r\<lparr>os_log := os_log r @ [AddRouteCmd (devName r) cidr]\<rparr>)"

definition RemoveEphemeralItem :: "extern \<Rightarrow> Route \<Rightarrow> string \<Rightarrow> error option \<times> Route" where
  "RemoveEphemeralItem E r cidr =
     (case EphemeralItems_Remove (ephemeralItems r) cidr of
        Some (ei, rest) \<Rightarrow> DeleteRoute E (r\<lparr>ephemeralItems := rest\<rparr>) cidr
      | None \<Rightarrow> (Some (ErrRouteItemNotFound cidr), r))"

definition RemoveItem :: "extern \<Rightarrow> Route \<Rightarrow> string \<Rightarrow> error option \<times> Route" where
  "RemoveItem E r cidr =
     (case Items_Remove (items r) cidr of
        Some (item, rest) \<Rightarrow> DeleteRoute E (r\<lparr>items := rest\<rparr>) cidr
      | None \<Rightarrow>
         (case RemoveEphemeralItem E r cidr of
            (Some err, r') \<Rightarrow> (Some err, r')
          | (None, r') \<Rightarrow> (Some (ErrRouteItemNotFound cidr), r')))"

definition PersistEphemeralItem :: "Route \<Rightarrow> string \<Rightarrow> error option \<times> Route" where
  "PersistEphemeralItem r cidr =
     (case EphemeralItems_Remove (ephemeralItems r) cidr of
        Some (ei, rest) \<Rightarrow>
          (None, r\<lparr>ephemeralItems := rest,
                   items := Items_Sort (Items_Append (items r) (Item ei))\<rparr>)
      | None \<Rightarrow> (Some (ErrRouteItemNotFound cidr), r))"

text \<open>
  The send on \<open>newEphemeralItem\<close> is in a \<open>select\<close> with a \<open>default\<close> branch: it fills the
  channel when it is empty and does nothing when a wake-up is already pending.
\<close>

definition AddEphemeralItem :: "extern \<Rightarrow> Route \<Rightarrow> EphemeralItem \<Rightarrow> error option \<times> Route" where
  "AddEphemeralItem E r i =
     (case checkValidCIDR E (CIDR (Item i)) of
        Some err \<Rightarrow> (Some err, r)
      | None \<Rightarrow>
          SetRoute E (r\<lparr>ephemeralItems := EphemeralItems_Add (ephemeralItems r) i,
                       newEphemeralItem := True\<rparr>) (CIDR (Item i)))"

definition Route_Match :: "Route \<Rightarrow> IPNet \<Rightarrow> Item option" where
  "Route_Match r ipnet =
     (case EphemeralItems_Match (ephemeralItems r) ipnet of
        Some item \<Rightarrow> Some (Item item)
      | None \<Rightarrow>
         (case Items_Match (items r) ipnet of
            Some item \<Rightarrow> Some item
          | None \<Rightarrow> None))"

definition AddItem :: "extern \<Rightarrow> Route \<Rightarrow> Item \<Rightarrow> error option \<times> Route" where
  "AddItem E r i =
     (case Route_Match r (IPNet i) of
        Some item \<Rightarrow> (Some (ErrRouteItemContains (CIDR i) (CIDR item)), r)
      | None \<Rightarrow>
          SetRoute E (r\<lparr>items := Items_Sort (Items_Append (items r) i)\<rparr>) (CIDR i))"

subsection \<open>What FormatCIDR needs of net.ParseCIDR and IPNet.String\<close>


subsection \<open>Example networks and items\<close>

abbreviation net_10_8 :: IPNet where
  "net_10_8 \<equiv> \<lparr>IP = [10, 0, 0, 0], Mask = [255, 0, 0, 0]\<rparr>"

abbreviation net_10_1_16 :: IPNet where
  "net_10_1_16 \<equiv> \<lparr>IP = [10, 1, 0, 0], Mask = [255, 255, 0, 0]\<rparr>"

abbreviation net_192_168_1_24 :: IPNet where
  "net_192_168_1_24 \<equiv> \<lparr>IP = [192, 168, 1, 0], Mask = [255, 255, 255, 0]\<rparr>"

abbreviation item_10_8 :: Item where
  "item_10_8 \<equiv> \<lparr>CIDR = ''10.0.0.0/8'', Comment = ''lan'', IPNet = net_10_8\<rparr>"

abbreviation item_10_1_16 :: Item where
  "item_10_1_16 \<equiv> \<lparr>CIDR = ''10.1.0.0/16'', Comment = ''vpn'', IPNet = net_10_1_16\<rparr>"

abbreviation item_192_168_1_24 :: Item where
  "item_192_168_1_24 \<equiv> \<lparr>CIDR = ''192.168.1.0/24'', Comment = ''home'', IPNet = net_192_168_1_24\<rparr>"

section \<open>Properties of the controller\<close>

lemma unat_succ_word32: "unat (w + 1 :: 32 word) = (unat w + 1) mod 2 ^ 32"
  by (simp add: unat_word_ariths)

lemma word32_less_succ: "w \<noteq> (- 1 :: 32 word) \<Longrightarrow> w < w + 1"
  by (metis inc_less_eq_triv_imp linorder_less_linear word_le_less_eq)

text \<open>
  Claim C9. GetReqId is a counter of the controller instance: a call returns the value of
  the previous call plus one modulo \<open>2 ^ 32\<close>, which is larger than the previous value
  except at the wrap from \<open>2 ^ 32 - 1\<close> to \<open>0\<close>, and a call on the controller at one
  address leaves the controller at every other address as it was.
\<close>

theorem GetReqId_counter:
  "fst (GetReqId c) = reqId c + 1
   \<and> reqId (snd (GetReqId c)) = fst (GetReqId c)
   \<and> fst (GetReqId (snd (GetReqId c))) = fst (GetReqId c) + 1
   \<and> unat (fst (GetReqId c)) = (unat (reqId c) + 1) mod 2 ^ 32
   \<and> (reqId c \<noteq> - 1 \<longrightarrow> reqId c < fst (GetReqId c))
   \<and> (reqId c = - 1 \<longrightarrow> fst (GetReqId c) = 0)
   \<and> (a \<noteq> b \<longrightarrow> snd (GetReqId_at h a) b = h b)
   \<and> fst (GetReqId_at h a) = reqId (h a) + 1
   \<and> reqId (snd (GetReqId_at h a) a) = reqId (h a) + 1"
  by (simp add: GetReqId_def GetReqId_at_def unat_succ_word32 word32_less_succ)

theorem GetReqId_counter_witness:
  "fst (GetReqId NewController) = 1
   \<and> fst (GetReqId (snd (GetReqId NewController))) = 2
   \<and> reqId NewController < fst (GetReqId NewController)
   \<and> fst (GetReqId (NewController\<lparr>reqId := - 1\<rparr>)) = 0
   \<and> snd (GetReqId_at (\<lambda>_. NewController) 0) 1 = NewController"
  using GetReqId_counter [of NewController 0 1 "\<lambda>_. NewController"]
    GetReqId_counter [of "NewController\<lparr>reqId := - 1\<rparr>" 0 1 "\<lambda>_. NewController"]
  by (simp add: NewController_def)

text \<open>
  Claim C2. A response packet whose correlation id has a staging entry is offered to that
  entry's reply channel by a send that does not block: it is handed over when the caller
  is waiting on the channel and dropped otherwise (an entry without a reply channel gets
  nothing), and the entry is removed. A response whose id has no staging entry leaves the
  controller as it was. In both cases a further response with the same id changes
  nothing, so no request is delivered to twice.
\<close>

theorem readLoop_response_delivery:
  assumes "IsResp (Type p)"
  shows "(case staging c (ReqId p) of
            Some st \<Rightarrow>
              staging (readLoop_recv IsResp c p) = (staging c)(ReqId p := None)
              \<and> (case Reply st of
                    Some ch \<Rightarrow>
                      chans (readLoop_recv IsResp c p) =
                        (chans c)(ch := (if waiting (chans c ch)
                                         then \<lparr>waiting = False, received = received (chans c ch) @ [p]\<rparr>
                                         else chans c ch))
                  | None \<Rightarrow> chans (readLoop_recv IsResp c p) = chans c)
              \<and> reqId (readLoop_recv IsResp c p) = reqId c
              \<and> out (readLoop_recv IsResp c p) = out c
              \<and> toDC (readLoop_recv IsResp c p) = toDC c
          | None \<Rightarrow> readLoop_recv IsResp c p = c)
         \<and> staging (readLoop_recv IsResp c p) (ReqId p) = None
         \<and> (IsResp (Type p') \<and> ReqId p' = ReqId p \<longrightarrow>
              readLoop_recv IsResp (readLoop_recv IsResp c p) p' = readLoop_recv IsResp c p)"
  using assms
  by (auto simp: readLoop_recv_def try_send_def split: option.splits)

theorem readLoop_response_delivery_witness:
  "received (chans (readLoop_recv (\<lambda>t. t = 2)
       (NewController\<lparr>staging := [7 \<mapsto> \<lparr>Packet = \<lparr>Type = 1, HasIV = True, ReqId = 7, Payload = []\<rparr>, Reply = Some 0\<rparr>],
                      chans := (\<lambda>_. \<lparr>waiting = True, received = []\<rparr>)\<rparr>)
       \<lparr>Type = 2, HasIV = True, ReqId = 7, Payload = [1]\<rparr>) 0) = [\<lparr>Type = 2, HasIV = True, ReqId = 7, Payload = [1]\<rparr>]
   \<and> staging (readLoop_recv (\<lambda>t. t = 2)
       (NewController\<lparr>staging := [7 \<mapsto> \<lparr>Packet = \<lparr>Type = 1, HasIV = True, ReqId = 7, Payload = []\<rparr>, Reply = Some 0\<rparr>],
                      chans := (\<lambda>_. \<lparr>waiting = True, received = []\<rparr>)\<rparr>)
       \<lparr>Type = 2, HasIV = True, ReqId = 7, Payload = [1]\<rparr>) 7 = None
   \<and> readLoop_recv (\<lambda>t. t = 2) NewController \<lparr>Type = 2, HasIV = True, ReqId = 7, Payload = [1]\<rparr> = NewController"
  using readLoop_response_delivery [of "\<lambda>t. t = 2" "\<lparr>Type = 2, HasIV = True, ReqId = 7, Payload = [1]\<rparr>"
      "NewController\<lparr>staging := [7 \<mapsto> \<lparr>Packet = \<lparr>Type = 1, HasIV = True, ReqId = 7, Payload = []\<rparr>, Reply = Some 0\<rparr>],
                     chans := (\<lambda>_. \<lparr>waiting = True, received = []\<rparr>)\<rparr>"
      "\<lparr>Type = 2, HasIV = True, ReqId = 7, Payload = [1]\<rparr>"]
    readLoop_response_delivery [of "\<lambda>t. t = 2" "\<lparr>Type = 2, HasIV = True, ReqId = 7, Payload = [1]\<rparr>"
      NewController "\<lparr>Type = 2, HasIV = True, ReqId = 7, Payload = [1]\<rparr>"]
  by (simp add: NewController_def)

text \<open>
  Claim C7, amended. The write loop stages a request exactly when its packet is
  request-kind. A request-kind packet that has no correlation id yet gets the next value
  of the counter, and the staging table maps that id to the request; a request-kind
  packet that already carries an id keeps it, the counter stays, and the staging table
  maps the id it carries to the request. For any other packet the counter, the packet and
  the staging table stay as they were. In every case the packet is the next one sent on
  \<open>toDC\<close>.
\<close>

theorem writeLoop_stages_requests_only:
  "(IsReq (Type (Packet req)) \<and> \<not> HasIV (Packet req) \<longrightarrow>
      reqId (writeLoop_recv IsReq c req) = reqId c + 1
      \<and> staging (writeLoop_recv IsReq c req) =
          (staging c)(reqId c + 1 \<mapsto>
             req\<lparr>Packet := (Packet req)\<lparr>HasIV := True, ReqId := reqId c + 1\<rparr>\<rparr>)
      \<and> toDC (writeLoop_recv IsReq c req) =
          toDC c @ [(Packet req)\<lparr>HasIV := True, ReqId := reqId c + 1\<rparr>])
   \<and> (IsReq (Type (Packet req)) \<and> HasIV (Packet req) \<longrightarrow>
      reqId (writeLoop_recv IsReq c req) = reqId c
      \<and> staging (writeLoop_recv IsReq c req) = (staging c)(ReqId (Packet req) \<mapsto> req)
      \<and> toDC (writeLoop_recv IsReq c req) = toDC c @ [Packet req])
   \<and> (\<not> IsReq (Type (Packet req)) \<longrightarrow>
      reqId (writeLoop_recv IsReq c req) = reqId c
      \<and> staging (writeLoop_recv IsReq c req) = staging c
      \<and> toDC (writeLoop_recv IsReq c req) = toDC c @ [Packet req])
   \<and> chans (writeLoop_recv IsReq c req) = chans c
   \<and> out (writeLoop_recv IsReq c req) = out c
   \<and> (staging (writeLoop_recv IsReq c req) \<noteq> staging c \<longrightarrow> IsReq (Type (Packet req)))"
  by (simp add: writeLoop_recv_def InitIV_def GetReqId_def)

theorem writeLoop_stages_requests_only_witness:
  "staging (writeLoop_recv (\<lambda>t. t = 1) NewController
       \<lparr>Packet = \<lparr>Type = 1, HasIV = False, ReqId = 0, Payload = []\<rparr>, Reply = Some 0\<rparr>) 1
     = Some \<lparr>Packet = \<lparr>Type = 1, HasIV = True, ReqId = 1, Payload = []\<rparr>, Reply = Some 0\<rparr>
   \<and> reqId (writeLoop_recv (\<lambda>t. t = 1) NewController
       \<lparr>Packet = \<lparr>Type = 1, HasIV = False, ReqId = 0, Payload = []\<rparr>, Reply = Some 0\<rparr>) = 1
   \<and> toDC (writeLoop_recv (\<lambda>t. t = 1) NewController
       \<lparr>Packet = \<lparr>Type = 1, HasIV = False, ReqId = 0, Payload = []\<rparr>, Reply = Some 0\<rparr>)
     = [\<lparr>Type = 1, HasIV = True, ReqId = 1, Payload = []\<rparr>]
   \<and> staging (writeLoop_recv (\<lambda>t. t = 1) NewController
       \<lparr>Packet = \<lparr>Type = 2, HasIV = True, ReqId = 9, Payload = []\<rparr>, Reply = None\<rparr>) = Map.empty
   \<and> reqId (writeLoop_recv (\<lambda>t. t = 1) NewController
       \<lparr>Packet = \<lparr>Type = 2, HasIV = True, ReqId = 9, Payload = []\<rparr>, Reply = None\<rparr>) = 0
   \<and> toDC (writeLoop_recv (\<lambda>t. t = 1) NewController
       \<lparr>Packet = \<lparr>Type = 2, HasIV = True, ReqId = 9, Payload = []\<rparr>, Reply = None\<rparr>)
     = [\<lparr>Type = 2, HasIV = True, ReqId = 9, Payload = []\<rparr>]"
  using writeLoop_stages_requests_only [of "\<lambda>t. t = 1"
      "\<lparr>Packet = \<lparr>Type = 1, HasIV = False, ReqId = 0, Payload = []\<rparr>, Reply = Some 0\<rparr>"
      NewController]
    writeLoop_stages_requests_only [of "\<lambda>t. t = 1"
      "\<lparr>Packet = \<lparr>Type = 2, HasIV = True, ReqId = 9, Payload = []\<rparr>, Reply = None\<rparr>"
      NewController]
  by (simp add: NewController_def)

text \<open>
  The claim as stated fails for a request-kind packet that already carries an id, such as
  one submitted a second time: on a new controller the packet with id 7 is staged under
  7 and sent with 7, and the counter is still 0, so no id was assigned at this step.
\<close>

theorem writeLoop_keeps_assigned_id_counterexample:
  "reqId (writeLoop_recv (\<lambda>t. t = 1) NewController
       \<lparr>Packet = \<lparr>Type = 1, HasIV = True, ReqId = 7, Payload = []\<rparr>, Reply = Some 0\<rparr>) = 0
   \<and> staging (writeLoop_recv (\<lambda>t. t = 1) NewController
       \<lparr>Packet = \<lparr>Type = 1, HasIV = True, ReqId = 7, Payload = []\<rparr>, Reply = Some 0\<rparr>) 7
     = Some \<lparr>Packet = \<lparr>Type = 1, HasIV = True, ReqId = 7, Payload = []\<rparr>, Reply = Some 0\<rparr>
   \<and> staging (writeLoop_recv (\<lambda>t. t = 1) NewController
       \<lparr>Packet = \<lparr>Type = 1, HasIV = True, ReqId = 7, Payload = []\<rparr>, Reply = Some 0\<rparr>) 1
     = None
   \<and> toDC (writeLoop_recv (\<lambda>t. t = 1) NewController
       \<lparr>Packet = \<lparr>Type = 1, HasIV = True, ReqId = 7, Payload = []\<rparr>, Reply = Some 0\<rparr>)
     = [\<lparr>Type = 1, HasIV = True, ReqId = 7, Payload = []\<rparr>]"
  by (simp add: writeLoop_recv_def InitIV_def GetReqId_def NewController_def)

section \<open>Properties of the route tables\<close>

lemma find_unique:
  assumes "\<And>x. x \<in> set xs \<Longrightarrow> P x \<Longrightarrow> x = a"
  shows "find P xs = (if a \<in> set xs \<and> P a then Some a else None)"
  using assms
proof (induction xs)
  case Nil
  then show ?case by simp
next
  case (Cons y ys)
  have ih: "find P ys = (if a \<in> set ys \<and> P a then Some a else None)"
    by (rule Cons.IH) (simp add: Cons.prems)
  show ?case
  proof (cases "P y")
    case True
    then have "y = a" by (simp add: Cons.prems)
    with True show ?thesis by simp
  next
    case False
    then show ?thesis by (auto simp: ih)
  qed
qed

lemma EphemeralItems_Remove_None_iff:
  "EphemeralItems_Remove es c = None \<longleftrightarrow> c \<notin> (\<lambda>e. CIDR (Item e)) ` set es"
  by (induction es) (auto split: option.splits)

lemma EphemeralItems_Remove_Some:
  "EphemeralItems_Remove es c = Some (e, rest) \<Longrightarrow>
     \<exists>xs ys. es = xs @ e # ys \<and> rest = xs @ ys \<and> CIDR (Item e) = c
       \<and> c \<notin> (\<lambda>e. CIDR (Item e)) ` set xs"
proof (induction es arbitrary: rest)
  case Nil
  then show ?case by simp
next
  case (Cons x es)
  show ?case
  proof (cases "CIDR (Item x) = c")
    case True
    with Cons.prems have "e = x" "rest = es" by simp_all
    with True show ?thesis
      by - (rule exI [of _ "[]"], rule exI [of _ es], simp)
  next
    case False
    with Cons.prems obtain rest' where r: "EphemeralItems_Remove es c = Some (e, rest')" "rest = x # rest'"
      by (auto split: option.splits)
    from Cons.IH [OF r(1)] obtain xs ys where
      "es = xs @ e # ys" "rest' = xs @ ys" "CIDR (Item e) = c" "c \<notin> (\<lambda>e. CIDR (Item e)) ` set xs"
      by blast
    with False r(2) show ?thesis
      by - (rule exI [of _ "x # xs"], rule exI [of _ ys], simp)
  qed
qed

lemma Route_Match_only_candidate:
  assumes "set (ephemeralItems r) \<subseteq> insert e (set rest)" 
    and "\<forall>x\<in>set rest. \<not> Item_Match (Item x) n"
    and "\<forall>x\<in>set (items r). \<not> Item_Match x n"
    and "e \<in> set (ephemeralItems r)"
  shows "Route_Match r n = (if Item_Match (Item e) n then Some (Item e) else None)"
proof -
  have u: "\<And>x. x \<in> set (ephemeralItems r) \<Longrightarrow> Item_Match (Item x) n \<Longrightarrow> x = e"
    using assms(1,2) by auto
  have "find (\<lambda>x. Item_Match (Item x) n) (ephemeralItems r)
      = (if e \<in> set (ephemeralItems r) \<and> Item_Match (Item e) n then Some e else None)"
    by (rule find_unique) (rule u)
  then have "EphemeralItems_Match (ephemeralItems r) n = (if Item_Match (Item e) n then Some e else None)"
    using assms(4) by (simp add: EphemeralItems_Match_def)
  moreover have "Items_Match (items r) n = None"
    unfolding Items_Match_def using assms(3) by (simp add: find_None_iff)
  ultimately show ?thesis by (simp add: Route_Match_def)
qed

lemma Route_Match_after_persist:
  assumes "\<forall>x\<in>set rest. \<not> Item_Match (Item x) n"
    and "\<forall>x\<in>set its. \<not> Item_Match x n"
  shows "Route_Match (r\<lparr>ephemeralItems := rest, items := Items_Sort (Items_Append its i)\<rparr>) n
         = (if Item_Match i n then Some i else None)"
proof -
  have "EphemeralItems_Match rest n = None"
    unfolding EphemeralItems_Match_def using assms(1) by (simp add: find_None_iff)
  moreover have "Items_Match (Items_Sort (Items_Append its i)) n = (if Item_Match i n then Some i else None)"
  proof -
    have u: "\<And>x. x \<in> set (Items_Sort (Items_Append its i)) \<Longrightarrow> Item_Match x n \<Longrightarrow> x = i"
      using assms(2) by (auto simp: Items_Sort_def Items_Append_def)
    have m: "i \<in> set (Items_Sort (Items_Append its i))"
      by (simp add: Items_Sort_def Items_Append_def)
    have "find (\<lambda>x. Item_Match x n) (Items_Sort (Items_Append its i))
        = (if i \<in> set (Items_Sort (Items_Append its i)) \<and> Item_Match i n then Some i else None)"
      by (rule find_unique) (rule u)
    with m show ?thesis by (simp add: Items_Match_def)
  qed
  ultimately show ?thesis by (simp add: Route_Match_def split: option.splits)
qed

text \<open>
  What \<open>PersistEphemeralItem\<close> does in any state. When \<open>cidr\<close> names an entry of the
  ephemeral table, that entry leaves the ephemeral table, its item is appended to the
  persistent table, which is sorted by CIDR string, and no command is handed to the
  operating system; if no other entry of either table matches the item's network,
  \<open>Route.Match\<close> for that network gives the same answer before and after (the item
  itself when it matches its own network). When \<open>cidr\<close> names no ephemeral entry the
  result is the not-found error and the route is unchanged.
\<close>

lemma PersistEphemeralItem_moves_entry:
  "(cidr \<in> (\<lambda>e. CIDR (Item e)) ` set (ephemeralItems r) \<longrightarrow>
      (\<exists>e rest. EphemeralItems_Remove (ephemeralItems r) cidr = Some (e, rest)))
   \<and> (EphemeralItems_Remove (ephemeralItems r) cidr = Some (e, rest) \<longrightarrow>
        CIDR (Item e) = cidr
        \<and> mset (ephemeralItems r) = add_mset e (mset rest)
        \<and> PersistEphemeralItem r cidr =
            (None, r\<lparr>ephemeralItems := rest, items := Items_Sort (Items_Append (items r) (Item e))\<rparr>)
        \<and> mset (items (snd (PersistEphemeralItem r cidr))) = add_mset (Item e) (mset (items r))
        \<and> sorted (map CIDR (items (snd (PersistEphemeralItem r cidr))))
        \<and> os_log (snd (PersistEphemeralItem r cidr)) = os_log r
        \<and> ((\<forall>x\<in>set rest. \<not> Item_Match (Item x) (IPNet (Item e)))
            \<and> (\<forall>x\<in>set (items r). \<not> Item_Match x (IPNet (Item e))) \<longrightarrow>
            Route_Match (snd (PersistEphemeralItem r cidr)) (IPNet (Item e))
              = Route_Match r (IPNet (Item e))
            \<and> (Item_Match (Item e) (IPNet (Item e)) \<longrightarrow>
                 Route_Match r (IPNet (Item e)) = Some (Item e))))
   \<and> (cidr \<notin> (\<lambda>e. CIDR (Item e)) ` set (ephemeralItems r) \<longrightarrow>
        PersistEphemeralItem r cidr = (Some (ErrRouteItemNotFound cidr), r))"
proof -
  have present: "\<exists>e rest. EphemeralItems_Remove (ephemeralItems r) cidr = Some (e, rest)"
    if "cidr \<in> (\<lambda>e. CIDR (Item e)) ` set (ephemeralItems r)"
    using that EphemeralItems_Remove_None_iff [of "ephemeralItems r" cidr]
    by (cases "EphemeralItems_Remove (ephemeralItems r) cidr") auto
  have absent: "PersistEphemeralItem r cidr = (Some (ErrRouteItemNotFound cidr), r)"
    if "cidr \<notin> (\<lambda>e. CIDR (Item e)) ` set (ephemeralItems r)"
  proof -
    from that have "EphemeralItems_Remove (ephemeralItems r) cidr = None"
      by (simp add: EphemeralItems_Remove_None_iff)
    then show ?thesis by (simp add: PersistEphemeralItem_def)
  qed
  have moved: "CIDR (Item e) = cidr
        \<and> mset (ephemeralItems r) = add_mset e (mset rest)
        \<and> PersistEphemeralItem r cidr =
            (None, r\<lparr>ephemeralItems := rest, items := Items_Sort (Items_Append (items r) (Item e))\<rparr>)
        \<and> mset (items (snd (PersistEphemeralItem r cidr))) = add_mset (Item e) (mset (items r))
        \<and> sorted (map CIDR (items (snd (PersistEphemeralItem r cidr))))
        \<and> os_log (snd (PersistEphemeralItem r cidr)) = os_log r
        \<and> ((\<forall>x\<in>set rest. \<not> Item_Match (Item x) (IPNet (Item e)))
            \<and> (\<forall>x\<in>set (items r). \<not> Item_Match x (IPNet (Item e))) \<longrightarrow>
            Route_Match (snd (PersistEphemeralItem r cidr)) (IPNet (Item e))
              = Route_Match r (IPNet (Item e))
            \<and> (Item_Match (Item e) (IPNet (Item e)) \<longrightarrow>
                 Route_Match r (IPNet (Item e)) = Some (Item e)))"
    if rm: "EphemeralItems_Remove (ephemeralItems r) cidr = Some (e, rest)"
  proof -
    from EphemeralItems_Remove_Some [OF rm] obtain xs ys where
      dec: "ephemeralItems r = xs @ e # ys" "rest = xs @ ys" "CIDR (Item e) = cidr"
      by blast
    have p: "PersistEphemeralItem r cidr =
        (None, r\<lparr>ephemeralItems := rest, items := Items_Sort (Items_Append (items r) (Item e))\<rparr>)"
      using rm by (simp add: PersistEphemeralItem_def)
    have m1: "mset (ephemeralItems r) = add_mset e (mset rest)" using dec by simp
    have m2: "mset (items (snd (PersistEphemeralItem r cidr))) = add_mset (Item e) (mset (items r))"
      by (simp add: p Items_Sort_def Items_Append_def)
    have so: "sorted (map CIDR (items (snd (PersistEphemeralItem r cidr))))"
      by (simp add: p Items_Sort_def)
    have lg: "os_log (snd (PersistEphemeralItem r cidr)) = os_log r"
      by (simp add: p)
    have mt: "Route_Match (snd (PersistEphemeralItem r cidr)) (IPNet (Item e))
              = Route_Match r (IPNet (Item e))
            \<and> (Item_Match (Item e) (IPNet (Item e)) \<longrightarrow>
                 Route_Match r (IPNet (Item e)) = Some (Item e))"
      if no: "(\<forall>x\<in>set rest. \<not> Item_Match (Item x) (IPNet (Item e)))
            \<and> (\<forall>x\<in>set (items r). \<not> Item_Match x (IPNet (Item e)))"
    proof -
      have before: "Route_Match r (IPNet (Item e))
          = (if Item_Match (Item e) (IPNet (Item e)) then Some (Item e) else None)"
        using no dec by (intro Route_Match_only_candidate [where rest = rest]) auto
      have after: "Route_Match (snd (PersistEphemeralItem r cidr)) (IPNet (Item e))
          = (if Item_Match (Item e) (IPNet (Item e)) then Some (Item e) else None)"
        using no by (simp add: p Route_Match_after_persist)
      show ?thesis by (simp add: before after)
    qed
    from dec(3) m1 p m2 so lg mt show ?thesis by blast
  qed
  from present absent moved show ?thesis by blast
qed

lemma PersistEphemeralItem_moves_entry_example:
  "EphemeralItems_Remove [\<lparr>Item = item_10_1_16, Expired = 100\<rparr>] ''10.1.0.0/16''
     = Some (\<lparr>Item = item_10_1_16, Expired = 100\<rparr>, [])
   \<and> PersistEphemeralItem
        \<lparr>items = [item_192_168_1_24], ephemeralItems = [\<lparr>Item = item_10_1_16, Expired = 100\<rparr>],
         devName = ''tun0'', newEphemeralItem = True, os_log = []\<rparr> ''10.1.0.0/16''
     = (None, \<lparr>items = [item_10_1_16, item_192_168_1_24], ephemeralItems = [],
               devName = ''tun0'', newEphemeralItem = True, os_log = []\<rparr>)
   \<and> Route_Match
        \<lparr>items = [item_192_168_1_24], ephemeralItems = [\<lparr>Item = item_10_1_16, Expired = 100\<rparr>],
         devName = ''tun0'', newEphemeralItem = True, os_log = []\<rparr> net_10_1_16 = Some item_10_1_16
   \<and> Route_Match
        \<lparr>items = [item_10_1_16, item_192_168_1_24], ephemeralItems = [],
         devName = ''tun0'', newEphemeralItem = True, os_log = []\<rparr> net_10_1_16 = Some item_10_1_16
   \<and> PersistEphemeralItem
        \<lparr>items = [item_192_168_1_24], ephemeralItems = [\<lparr>Item = item_10_1_16, Expired = 100\<rparr>],
         devName = ''tun0'', newEphemeralItem = True, os_log = []\<rparr> ''10.0.0.0/8''
     = (Some (ErrRouteItemNotFound ''10.0.0.0/8''),
        \<lparr>items = [item_192_168_1_24], ephemeralItems = [\<lparr>Item = item_10_1_16, Expired = 100\<rparr>],
         devName = ''tun0'', newEphemeralItem = True, os_log = []\<rparr>)"
proof -
  let ?e = "\<lparr>Item = item_10_1_16, Expired = 100\<rparr>"
  let ?r = "\<lparr>items = [item_192_168_1_24], ephemeralItems = [?e],
             devName = ''tun0'', newEphemeralItem = True, os_log = []\<rparr>"
  have h2: "EphemeralItems_Remove (ephemeralItems ?r) ''10.1.0.0/16'' = Some (?e, [])"
    by code_simp
  have h3: "(\<forall>x\<in>set []. \<not> Item_Match (Item x) (IPNet (Item ?e)))
      \<and> (\<forall>x\<in>set (items ?r). \<not> Item_Match x (IPNet (Item ?e)))"
    by code_simp
  have h4: "Item_Match (Item ?e) (IPNet (Item ?e))"
    by code_simp
  have h5: "''10.0.0.0/8'' \<notin> (\<lambda>e. CIDR (Item e)) ` set (ephemeralItems ?r)"
    by code_simp
  have h6: "Items_Sort (Items_Append (items ?r) (Item ?e)) = [item_10_1_16, item_192_168_1_24]"
    by code_simp
  note t1 = PersistEphemeralItem_moves_entry [of "''10.1.0.0/16''" ?r ?e "[]"]
  note t2 = PersistEphemeralItem_moves_entry [of "''10.0.0.0/8''" ?r]
  from t1 h2 have p: "PersistEphemeralItem ?r ''10.1.0.0/16'' =
      (None, ?r\<lparr>ephemeralItems := [], items := Items_Sort (Items_Append (items ?r) (Item ?e))\<rparr>)"
    by blast
  from t1 h2 h3 h4 have m: "Route_Match (snd (PersistEphemeralItem ?r ''10.1.0.0/16'')) (IPNet (Item ?e))
      = Route_Match ?r (IPNet (Item ?e)) \<and> Route_Match ?r (IPNet (Item ?e)) = Some (Item ?e)"
    by blast
  from t2 h5 have a: "PersistEphemeralItem ?r ''10.0.0.0/8'' = (Some (ErrRouteItemNotFound ''10.0.0.0/8''), ?r)"
    by blast
  have p': "PersistEphemeralItem ?r ''10.1.0.0/16'' =
      (None, \<lparr>items = [item_10_1_16, item_192_168_1_24], ephemeralItems = [],
               devName = ''tun0'', newEphemeralItem = True, os_log = []\<rparr>)"
    unfolding p h6 by simp
  from m have m': "Route_Match \<lparr>items = [item_10_1_16, item_192_168_1_24], ephemeralItems = [],
               devName = ''tun0'', newEphemeralItem = True, os_log = []\<rparr> net_10_1_16 = Some item_10_1_16
     \<and> Route_Match ?r net_10_1_16 = Some item_10_1_16"
    unfolding p' by simp
  from h2 p' m' a show ?thesis by simp
qed

text \<open>
  Claim C6 fails on the code in a state that \<open>AddEphemeralItem\<close> lets through for want
  of its overlap check (claim C1). After \<open>AddItem\<close> of \<open>10.0.0.0/8\<close> and
  \<open>AddEphemeralItem\<close> of \<open>10.1.0.0/16\<close>, \<open>Match\<close> for \<open>10.1.0.0/16\<close> gives the ephemeral
  item; \<open>PersistEphemeralItem\<close> succeeds, and afterwards the persistent table is scanned
  in sorted order, \<open>10.0.0.0/8\<close> comes first, and \<open>Match\<close> gives that item instead.
\<close>

theorem PersistEphemeralItem_changes_Match_on_overlap:
  "snd (AddEphemeralItem go_v4 (snd (AddItem go_v4 (NewRoute ''tun0'') item_10_8))
        \<lparr>Item = item_10_1_16, Expired = 100\<rparr>)
     = \<lparr>items = [item_10_8], ephemeralItems = [\<lparr>Item = item_10_1_16, Expired = 100\<rparr>],
        devName = ''tun0'', newEphemeralItem = True,
        os_log = [AddRouteCmd ''tun0'' ''10.0.0.0/8'', AddRouteCmd ''tun0'' ''10.1.0.0/16'']\<rparr>
   \<and> fst (PersistEphemeralItem
          \<lparr>items = [item_10_8], ephemeralItems = [\<lparr>Item = item_10_1_16, Expired = 100\<rparr>],
           devName = ''tun0'', newEphemeralItem = True,
           os_log = [AddRouteCmd ''tun0'' ''10.0.0.0/8'', AddRouteCmd ''tun0'' ''10.1.0.0/16'']\<rparr>
          ''10.1.0.0/16'') = None
   \<and> Route_Match
        \<lparr>items = [item_10_8], ephemeralItems = [\<lparr>Item = item_10_1_16, Expired = 100\<rparr>],
         devName = ''tun0'', newEphemeralItem = True,
         os_log = [AddRouteCmd ''tun0'' ''10.0.0.0/8'', AddRouteCmd ''tun0'' ''10.1.0.0/16'']\<rparr>
        net_10_1_16 = Some item_10_1_16
   \<and> Route_Match
        (snd (PersistEphemeralItem
          \<lparr>items = [item_10_8], ephemeralItems = [\<lparr>Item = item_10_1_16, Expired = 100\<rparr>],
           devName = ''tun0'', newEphemeralItem = True,
           os_log = [AddRouteCmd ''tun0'' ''10.0.0.0/8'', AddRouteCmd ''tun0'' ''10.1.0.0/16'']\<rparr>
          ''10.1.0.0/16''))
        net_10_1_16 = Some item_10_8
   \<and> item_10_8 \<noteq> item_10_1_16"
  by code_simp

text \<open>
  Claim C10. \<open>Route.Match\<close> asks the ephemeral table first: when an ephemeral entry
  matches the network, its item is the answer, whatever the persistent table holds; the
  answer is the persistent table's only when no ephemeral entry matches.
\<close>

theorem Route_Match_ephemeral_first:
  "(EphemeralItems_Match (ephemeralItems r) n = Some e \<longrightarrow> Route_Match r n = Some (Item e))
   \<and> (EphemeralItems_Match (ephemeralItems r) n = Some e \<and> Items_Match (items r) n = Some i \<longrightarrow>
        Route_Match r n = Some (Item e))
   \<and> (EphemeralItems_Match (ephemeralItems r) n = None \<longrightarrow> Route_Match r n = Items_Match (items r) n)"
  by (simp add: Route_Match_def split: option.splits)

theorem Route_Match_ephemeral_first_witness:
  "EphemeralItems_Match [\<lparr>Item = item_10_1_16, Expired = 100\<rparr>] net_10_1_16
     = Some \<lparr>Item = item_10_1_16, Expired = 100\<rparr>
   \<and> Items_Match [item_10_8] net_10_1_16 = Some item_10_8
   \<and> Route_Match
        \<lparr>items = [item_10_8], ephemeralItems = [\<lparr>Item = item_10_1_16, Expired = 100\<rparr>],
         devName = ''tun0'', newEphemeralItem = True, os_log = []\<rparr> net_10_1_16 = Some item_10_1_16
   \<and> Route_Match
        \<lparr>items = [item_10_8], ephemeralItems = [],
         devName = ''tun0'', newEphemeralItem = False, os_log = []\<rparr> net_10_1_16 = Some item_10_8"
proof -
  let ?e = "\<lparr>Item = item_10_1_16, Expired = 100\<rparr>"
  let ?r = "\<lparr>items = [item_10_8], ephemeralItems = [?e],
             devName = ''tun0'', newEphemeralItem = True, os_log = []\<rparr>"
  let ?q = "\<lparr>items = [item_10_8], ephemeralItems = [],
             devName = ''tun0'', newEphemeralItem = False, os_log = []\<rparr>"
  have h1: "EphemeralItems_Match [?e] net_10_1_16 = Some ?e"
    by code_simp
  have h2: "Items_Match [item_10_8] net_10_1_16 = Some item_10_8"
    by code_simp
  have h3: "EphemeralItems_Match [] net_10_1_16 = None"
    by code_simp
  have sel: "ephemeralItems ?r = [?e]" "items ?r = [item_10_8]"
    "ephemeralItems ?q = []" "items ?q = [item_10_8]"
    by simp_all
  from Route_Match_ephemeral_first [of ?r net_10_1_16 ?e item_10_8] h1 h2
  have a: "Route_Match ?r net_10_1_16 = Some (Item ?e)"
    unfolding sel by blast
  have it: "Item ?e = item_10_1_16"
    by simp
  from Route_Match_ephemeral_first [of ?q net_10_1_16] h3
  have b: "Route_Match ?q net_10_1_16 = Items_Match [item_10_8] net_10_1_16"
    unfolding sel by blast
  from h1 h2 a [unfolded it] b [unfolded h2] show ?thesis
    by blast
qed

text \<open>
  Claim C1 fails on the code: \<open>AddEphemeralItem\<close> checks the CIDR syntax only. With
  \<open>10.0.0.0/8\<close> in the persistent table, the ephemeral item \<open>10.1.0.0/16\<close>, which that
  entry matches, is inserted, the route command is run and no error is returned, while
  \<open>AddItem\<close> of the same item in the same state returns the conflict naming both CIDRs
  and changes nothing.
\<close>

theorem AddEphemeralItem_inserts_overlapping:
  "checkValidCIDR go_v4 ''10.1.0.0/16'' = None
   \<and> Item_Match item_10_8 net_10_1_16
   \<and> AddItem go_v4 (NewRoute ''tun0'') item_10_8
     = (None, \<lparr>items = [item_10_8], ephemeralItems = [], devName = ''tun0'',
               newEphemeralItem = False, os_log = [AddRouteCmd ''tun0'' ''10.0.0.0/8'']\<rparr>)
   \<and> AddEphemeralItem go_v4
        \<lparr>items = [item_10_8], ephemeralItems = [], devName = ''tun0'',
         newEphemeralItem = False, os_log = [AddRouteCmd ''tun0'' ''10.0.0.0/8'']\<rparr>
        \<lparr>Item = item_10_1_16, Expired = 100\<rparr>
     = (None, \<lparr>items = [item_10_8], ephemeralItems = [\<lparr>Item = item_10_1_16, Expired = 100\<rparr>],
               devName = ''tun0'', newEphemeralItem = True,
               os_log = [AddRouteCmd ''tun0'' ''10.0.0.0/8'', AddRouteCmd ''tun0'' ''10.1.0.0/16'']\<rparr>)
   \<and> AddItem go_v4
        \<lparr>items = [item_10_8], ephemeralItems = [], devName = ''tun0'',
         newEphemeralItem = False, os_log = [AddRouteCmd ''tun0'' ''10.0.0.0/8'']\<rparr>
        item_10_1_16
     = (Some (ErrRouteItemContains ''10.1.0.0/16'' ''10.0.0.0/8''),
        \<lparr>items = [item_10_8], ephemeralItems = [], devName = ''tun0'',
         newEphemeralItem = False, os_log = [AddRouteCmd ''tun0'' ''10.0.0.0/8'']\<rparr>)"
  by code_simp

text \<open>
  \<open>AddEphemeralItem\<close> never looks at the tables: whatever they hold, an item with valid
  CIDR syntax is inserted and the route command is run.
\<close>

lemma AddEphemeralItem_valid_always_inserts:
  assumes "net_ParseCIDR E (CIDR (Item i)) = Some n"
  shows "AddEphemeralItem E r i =
     (util_Shell E (os_log r) (AddRouteCmd (devName r) (CIDR (Item i))),
      r\<lparr>ephemeralItems := EphemeralItems_Add (ephemeralItems r) i, newEphemeralItem := True,
        os_log := os_log r @ [AddRouteCmd (devName r) (CIDR (Item i))]\<rparr>)"
  using assms by (simp add: AddEphemeralItem_def checkValidCIDR_def SetRoute_def)

text \<open>
  Claim C4 holds for \<open>AddEphemeralItem\<close> and fails for \<open>AddItem\<close>, which never calls
  \<open>checkValidCIDR\<close>: an item whose CIDR string is not CIDR syntax is appended to the
  persistent table and the route command is run with that string.
\<close>

lemma AddEphemeralItem_invalid_CIDR:
  assumes "net_ParseCIDR E (CIDR (Item i)) = None"
  shows "AddEphemeralItem E r i = (Some (ErrInvalidCIDR (CIDR (Item i))), r)"
  using assms by (simp add: AddEphemeralItem_def checkValidCIDR_def)

theorem AddItem_accepts_invalid_CIDR:
  "checkValidCIDR go_v4 ''bogus'' = Some (ErrInvalidCIDR ''bogus'')
   \<and> AddItem go_v4 (NewRoute ''tun0'') \<lparr>CIDR = ''bogus'', Comment = ''x'', IPNet = net_10_8\<rparr>
     = (None, \<lparr>items = [\<lparr>CIDR = ''bogus'', Comment = ''x'', IPNet = net_10_8\<rparr>],
               ephemeralItems = [], devName = ''tun0'', newEphemeralItem = False,
               os_log = [AddRouteCmd ''tun0'' ''bogus'']\<rparr>)
   \<and> AddEphemeralItem go_v4 (NewRoute ''tun0'')
        \<lparr>Item = \<lparr>CIDR = ''bogus'', Comment = ''x'', IPNet = net_10_8\<rparr>, Expired = 100\<rparr>
     = (Some (ErrInvalidCIDR ''bogus''), NewRoute ''tun0'')"
  by code_simp

text \<open>
  Claim C5 fails on the code. An entry found in the persistent table is removed and the
  result is that of the route-removal command, as claimed. An entry found only in the
  ephemeral table is removed and its route deleted, but when the deletion succeeds
  \<open>RemoveItem\<close> falls through to the not-found error: it returns no error only for an
  entry of the persistent table.
\<close>

theorem RemoveItem_ephemeral_reports_not_found:
  "EphemeralItems_Remove [\<lparr>Item = item_10_8, Expired = 100\<rparr>] ''10.0.0.0/8''
     = Some (\<lparr>Item = item_10_8, Expired = 100\<rparr>, [])
   \<and> RemoveItem go_v4
        \<lparr>items = [], ephemeralItems = [\<lparr>Item = item_10_8, Expired = 100\<rparr>], devName = ''tun0'',
         newEphemeralItem = False, os_log = []\<rparr> ''10.0.0.0/8''
     = (Some (ErrRouteItemNotFound ''10.0.0.0/8''),
        \<lparr>items = [], ephemeralItems = [], devName = ''tun0'',
         newEphemeralItem = False, os_log = [RemoveRouteCmd ''10.0.0.0/8'']\<rparr>)
   \<and> RemoveItem go_v4
        \<lparr>items = [item_10_8], ephemeralItems = [], devName = ''tun0'',
         newEphemeralItem = False, os_log = []\<rparr> ''10.0.0.0/8''
     = (None,
        \<lparr>items = [], ephemeralItems = [], devName = ''tun0'',
         newEphemeralItem = False, os_log = [RemoveRouteCmd ''10.0.0.0/8'']\<rparr>)"
  by code_simp

lemma RemoveItem_persistent:
  assumes "Items_Remove (items r) cidr = Some (i, rest)"
  shows "RemoveItem E r cidr = DeleteRoute E (r\<lparr>items := rest\<rparr>) cidr"
  using assms by (simp add: RemoveItem_def)

lemma RemoveItem_not_persistent_is_error:
  assumes "Items_Remove (items r) cidr = None"
  shows "fst (RemoveItem E r cidr) \<noteq> None"
  using assms by (simp add: RemoveItem_def split: prod.splits option.splits)

section \<open>Properties of FormatCIDR\<close>

subsection \<open>Printing and parsing IPv4 networks\<close>

lemma uitoa_loop_append: "uitoa_loop v acc = uitoa_loop v [] @ acc"
proof (induction v arbitrary: acc rule: less_induct)
  case (less v)
  show ?case
  proof (cases "10 \<le> v")
    case True
    then have lt: "v div 10 < v" by simp
    have "uitoa_loop v acc = uitoa_loop (v div 10) (char_of (48 + v mod 10) # acc)"
      using True by (subst uitoa_loop.simps) simp
    also have "\<dots> = uitoa_loop (v div 10) [] @ char_of (48 + v mod 10) # acc"
      by (rule less.IH [OF lt])
    also have "\<dots> = (uitoa_loop (v div 10) [] @ [char_of (48 + v mod 10)]) @ acc"
      by simp
    also have "uitoa_loop (v div 10) [] @ [char_of (48 + v mod 10)] = uitoa_loop (v div 10) [char_of (48 + v mod 10)]"
      by (rule less.IH [OF lt, symmetric])
    also have "\<dots> = uitoa_loop v []"
      using True by (subst (2) uitoa_loop.simps) simp
    finally show ?thesis .
  next
    case False
    then show ?thesis by (subst (1 2) uitoa_loop.simps) simp
  qed
qed

lemma uitoa_rec:
  "uitoa v = (if 10 \<le> v then uitoa (v div 10) @ [char_of (48 + v mod 10)] else [char_of (48 + v)])"
proof (cases "10 \<le> v")
  case True
  have "uitoa v = uitoa_loop (v div 10) [char_of (48 + v mod 10)]"
    unfolding uitoa_def using True by (subst uitoa_loop.simps) simp
  also have "\<dots> = uitoa (v div 10) @ [char_of (48 + v mod 10)]"
    unfolding uitoa_def by (rule uitoa_loop_append)
  finally show ?thesis using True by simp
next
  case False
  then show ?thesis unfolding uitoa_def by (subst uitoa_loop.simps) simp
qed

lemma is_digit_char_of: "d < 10 \<Longrightarrow> is_digit (char_of (48 + d :: nat))"
  by (simp add: is_digit_def)




lemma uitoa_digits: "c \<in> set (uitoa v) \<Longrightarrow> is_digit c"
proof (induction v rule: less_induct)
  case (less v)
  show ?case
  proof (cases "10 \<le> v")
    case True
    then have lt: "v div 10 < v" by simp
    from less.prems True have "c \<in> set (uitoa (v div 10)) \<or> c = char_of (48 + v mod 10)"
      by (subst (asm) uitoa_rec) auto
    then show ?thesis using less.IH [OF lt] by (auto simp: is_digit_char_of)
  next
    case False
    with less.prems have "c = char_of (48 + v)" by (subst (asm) uitoa_rec) simp
    with False show ?thesis by (simp add: is_digit_char_of)
  qed
qed





lemma not_digit_dot: "\<not> is_digit CHR ''.''" "\<not> is_digit CHR ''/''"
  by (simp_all add: is_digit_def)


lemma slash_not_in_uitoa: "CHR ''/'' \<notin> set (uitoa v)"
  using uitoa_digits [of "CHR ''/''" v] not_digit_dot(2) by blast













subsection \<open>FormatCIDR\<close>






end
